theory Spec2Isabelle
  imports Complex_Main
begin

section \<open>Wildfire risk and threat assessment\<close>

text \<open>
  Python floats are modelled as the real numbers they stand for, Python ints as
  \<open>int\<close>, Python strings as \<open>string\<close>. Every raise of the source is a value of the
  model (\<open>None\<close> or \<open>Inl\<close>).
\<close>

subsection \<open>Python built-ins used by the source\<close>

text \<open>Python's \<open>int(x)\<close> on a float drops the fractional part (rounds towards zero).\<close>

definition py_int :: "real \<Rightarrow> int" where
  "py_int x = (if 0 \<le> x then \<lfloor>x\<rfloor> else \<lceil>x\<rceil>)"

text \<open>
  Python's \<open>xs[i]\<close>: an index below zero counts from the end of the list, and an index
  outside \<open>-len(xs) .. len(xs) - 1\<close> raises IndexError (here \<open>None\<close>).
\<close>

definition py_getitem :: "'a list \<Rightarrow> int \<Rightarrow> 'a option" where
  "py_getitem xs i =
     (if 0 \<le> i \<and> i < int (length xs) then Some (xs ! nat i)
      else if i < 0 \<and> - int (length xs) \<le> i then Some (xs ! nat (int (length xs) + i))
      else None)"

subsection \<open>The five-tier risk classifier (simple\_predict.py, wildfire\_model.py)\<close>

text \<open>\<open>WildfirePredictor.predict\<close> and \<open>predict_dict\<close>:
  \<^verbatim>\<open>risk_levels = ['Low', 'Moderate', 'High', 'Very High', 'Extreme']\<close>,
  \<^verbatim>\<open>risk_index = min(int(probability * 5), 4)\<close>, then \<^verbatim>\<open>risk_levels[risk_index]\<close>.\<close>

definition risk_levels :: "string list" where
  "risk_levels = [''Low'', ''Moderate'', ''High'', ''Very High'', ''Extreme'']"

definition risk_index :: "real \<Rightarrow> int" where
  "risk_index probability = min (py_int (probability * 5)) 4"

definition classify_risk :: "real \<Rightarrow> string option" where
  "classify_risk probability = py_getitem risk_levels (risk_index probability)"

text \<open>\<open>WildfirePredictionAPI._get_risk_level\<close>: the threshold cascade.\<close>

definition get_risk_level :: "real \<Rightarrow> string" where
  "get_risk_level probability =
     (if probability < 0.2 then ''Low''
      else if probability < 0.4 then ''Moderate''
      else if probability < 0.6 then ''High''
      else if probability < 0.8 then ''Very High''
      else ''Extreme'')"

subsection \<open>Exceptions as values\<close>

text \<open>
  A raised exception is the left summand of a result. \<open>KeyError\<close> and \<open>IndexError\<close>
  are the two the modelled code can raise itself; \<open>Raised\<close> is an exception raised inside
  a collaborator (a model, a scaler, a network call), carrying its message.
\<close>

datatype py_error = KeyError string | IndexError | Raised string

text \<open>\<open>str(e)\<close>, as the handlers of the source format it into their messages.\<close>

fun str_of_error :: "py_error \<Rightarrow> string" where
  "str_of_error (KeyError k) = [CHR 0x27] @ k @ [CHR 0x27]"
| "str_of_error IndexError = ''list index out of range''"
| "str_of_error (Raised msg) = msg"

definition and_then :: "py_error + 'a \<Rightarrow> ('a \<Rightarrow> py_error + 'b) \<Rightarrow> py_error + 'b" where
  "and_then r k = (case r of Inl e \<Rightarrow> Inl e | Inr v \<Rightarrow> k v)"

text \<open>A list comprehension over fallible items: the first exception ends it.\<close>

fun collect :: "(py_error + 'a) list \<Rightarrow> py_error + 'a list" where
  "collect [] = Inr []"
| "collect (r # rs) =
     (case r of
        Inl e \<Rightarrow> Inl e
      | Inr v \<Rightarrow> (case collect rs of Inl e \<Rightarrow> Inl e | Inr vs \<Rightarrow> Inr (v # vs)))"

subsection \<open>The inference system (wildfire\_inference\_system.py)\<close>

text \<open>
  The live features of a location: the dictionary that \<open>get_live_features\<close> returns,
  with the twelve keys the source reads.
\<close>

record features =
  temp_c :: real
  rel_humidity_pct :: real
  wind_speed_ms :: real
  precip_mm :: real
  vpd_kpa :: real
  fwi :: real
  ndvi :: real
  ndmi :: real
  lfmc_proxy_pct :: real
  elevation_m :: real
  slope_pct :: real
  aspect_deg :: real

text \<open>\<open>features[col]\<close> for a key given as a string: an unknown key raises KeyError.\<close>

definition features_item :: "features \<Rightarrow> string \<Rightarrow> py_error + real" where
  "features_item f col =
     (if col = ''temp_c'' then Inr (temp_c f)
      else if col = ''rel_humidity_pct'' then Inr (rel_humidity_pct f)
      else if col = ''wind_speed_ms'' then Inr (wind_speed_ms f)
      else if col = ''precip_mm'' then Inr (precip_mm f)
      else if col = ''vpd_kpa'' then Inr (vpd_kpa f)
      else if col = ''fwi'' then Inr (fwi f)
      else if col = ''ndvi'' then Inr (ndvi f)
      else if col = ''ndmi'' then Inr (ndmi f)
      else if col = ''lfmc_proxy_pct'' then Inr (lfmc_proxy_pct f)
      else if col = ''elevation_m'' then Inr (elevation_m f)
      else if col = ''slope_pct'' then Inr (slope_pct f)
      else if col = ''aspect_deg'' then Inr (aspect_deg f)
      else Inl (KeyError col))"

text \<open>
  The state of a \<open>WildfireInferenceSystem\<close>: the regression model (its
  \<open>predict(feature_array)[0]\<close>), the optional scaler (its \<open>transform\<close>) and the optional
  column order, as \<open>__init__\<close> stores them.
\<close>

record inference_system =
  model :: "real list \<Rightarrow> py_error + real"
  scaler :: "(real list \<Rightarrow> py_error + real list) option"
  feature_columns :: "string list option"

text \<open>
  \<open>_predict_ros\<close>. \<open>if self.feature_columns:\<close> holds for a list that is neither
  \<open>None\<close> nor empty; \<open>if self.scaler:\<close> for a scaler that is not \<open>None\<close>. The prediction
  is clamped with \<open>max(0.01, ros_prediction)\<close>.
\<close>

definition all_features :: "features \<Rightarrow> real list" where
  "all_features f =
     [temp_c f, rel_humidity_pct f, wind_speed_ms f, precip_mm f, vpd_kpa f, fwi f,
      ndvi f, ndmi f, lfmc_proxy_pct f, elevation_m f, slope_pct f, aspect_deg f]"

definition feature_array_of :: "inference_system \<Rightarrow> features \<Rightarrow> py_error + real list" where
  "feature_array_of self f =
     (case feature_columns self of
        None \<Rightarrow> Inr (all_features f)
      | Some cols \<Rightarrow>
          if cols \<noteq> [] then collect (map (features_item f) cols)
          else Inr (all_features f))"

definition predict_ros :: "inference_system \<Rightarrow> features \<Rightarrow> py_error + real" where
  "predict_ros self f =
     and_then (feature_array_of self f) (\<lambda>feature_array.
     and_then (case scaler self of
                 None \<Rightarrow> Inr feature_array
               | Some transform \<Rightarrow> transform feature_array) (\<lambda>feature_array.
     and_then (model self feature_array) (\<lambda>ros_prediction.
       Inr (max 0.01 ros_prediction))))"

text \<open>
  The physics formulas are loaded at import time from
  \<open>live_api-Inference-follow_data.py\<close>, which is not among the sources: they are
  parameters of the model, one function each, under the names the source calls them by
  (with the suffix \<open>_fn\<close>, as many of them share their name with a key of the metrics).
\<close>

record physics =
  fuel_load_from_ndvi_fn :: "real \<Rightarrow> real"
  fuel_moisture_from_ndvi_ndmi_fn :: "real \<Rightarrow> real \<Rightarrow> real"
  slope_multiplier_fn :: "real \<Rightarrow> real"
  aspect_factor_fn :: "real \<Rightarrow> real"
  effective_ros_fn :: "real \<Rightarrow> real \<Rightarrow> real \<Rightarrow> real"
  byram_intensity_kWm_fn :: "real \<Rightarrow> real \<Rightarrow> real"
  flame_length_m_fn :: "real \<Rightarrow> real"
  severity_index_fn :: "real \<Rightarrow> real"
  severity_class_fn :: "real \<Rightarrow> string"
  crown_fire_score_fn :: "real \<Rightarrow> real \<Rightarrow> real \<Rightarrow> real"
  crown_fire_class_fn :: "real \<Rightarrow> string"
  spotting_distance_km_fn :: "real \<Rightarrow> real \<Rightarrow> real"
  time_to_burn_window_hours_fn :: "real \<Rightarrow> real \<Rightarrow> real"
  damage_in_window_rs_fn :: "real \<Rightarrow> real \<Rightarrow> real \<Rightarrow> real"
  containment_difficulty_fn :: "real \<Rightarrow> real \<Rightarrow> real \<Rightarrow> string"
  expected_threat_fn :: "real \<Rightarrow> real \<Rightarrow> real"

text \<open>The \<open>fire_metrics\<close> dictionary, one field for each of its keys.\<close>

record fire_metrics =
  ros_base_m_per_min :: real
  ros_effective_m_per_min :: real
  slope_multiplier :: real
  aspect_factor :: real
  fuel_load_kg_m2 :: real
  fuel_moisture_pct :: real
  intensity_kW_per_m :: real
  flame_length_m :: real
  severity_index :: real
  severity_class :: string
  crown_fire_score :: real
  crown_fire_class :: string
  spotting_distance_km :: real
  time_to_burn_5km2_hours :: real
  damage_estimate_rs :: real
  containment_difficulty :: string
  occurrence_probability :: real
  expected_threat :: real

text \<open>The seven progress lines that \<open>_calculate_fire_behavior\<close> prints, in order.\<close>

definition progress_lines :: "string list" where
  "progress_lines =
     [''   Calculating fuel properties...'', ''   Calculating terrain effects...'',
      ''   Calculating fire intensity...'', ''   Calculating crown fire potential...'',
      ''   Calculating spotting and spread...'',
      ''   Calculating time and damage estimates...'',
      ''   Calculating containment difficulty...'']"

text \<open>
  \<open>_calculate_fire_behavior\<close>. The method receives \<open>self\<close>, reads the features and the
  rate of spread, and prints seven progress lines; the model takes the instance and the
  console and returns both with the metrics, so that what the method reads and writes
  is in its type.
\<close>

definition calculate_fire_behavior ::
  "physics \<Rightarrow> inference_system \<times> string list \<Rightarrow> features \<Rightarrow> real \<Rightarrow>
     fire_metrics \<times> inference_system \<times> string list" where
  "calculate_fire_behavior ph st f ros_m_min =
     (let self = fst st; console = snd st;
          wind_ms = wind_speed_ms f;
          console = console @ [''   Calculating fuel properties...''];
          fuel_load = fuel_load_from_ndvi_fn ph (ndvi f);
          fuel_moisture = fuel_moisture_from_ndvi_ndmi_fn ph (ndvi f) (ndmi f);
          console = console @ [''   Calculating terrain effects...''];
          slope_mult = slope_multiplier_fn ph (slope_pct f);
          aspect_fact = aspect_factor_fn ph (aspect_deg f);
          ros_effective = effective_ros_fn ph ros_m_min (slope_pct f) (aspect_deg f);
          console = console @ [''   Calculating fire intensity...''];
          intensity = byram_intensity_kWm_fn ph ros_effective fuel_load;
          flame_length = flame_length_m_fn ph intensity;
          severity_idx = severity_index_fn ph flame_length;
          severity_cls = severity_class_fn ph flame_length;
          console = console @ [''   Calculating crown fire potential...''];
          crown_score = crown_fire_score_fn ph intensity wind_ms (ndvi f);
          crown_cls = crown_fire_class_fn ph crown_score;
          console = console @ [''   Calculating spotting and spread...''];
          spotting_dist = spotting_distance_km_fn ph wind_ms flame_length;
          console = console @ [''   Calculating time and damage estimates...''];
          burn_time_5km2 = time_to_burn_window_hours_fn ph ros_effective 5.0;
          damage_estimate = damage_in_window_rs_fn ph ros_effective 50000 5.0;
          console = console @ [''   Calculating containment difficulty...''];
          containment = containment_difficulty_fn ph flame_length (slope_pct f) 2.0;
          occurrence_prob = min 1.0 (severity_idx * (crown_score / 100.0));
          expected_threat_score = expected_threat_fn ph occurrence_prob severity_idx
      in (\<lparr>ros_base_m_per_min = ros_m_min,
           ros_effective_m_per_min = ros_effective,
           slope_multiplier = slope_mult,
           aspect_factor = aspect_fact,
           fuel_load_kg_m2 = fuel_load,
           fuel_moisture_pct = fuel_moisture,
           intensity_kW_per_m = intensity,
           flame_length_m = flame_length,
           severity_index = severity_idx,
           severity_class = severity_cls,
           crown_fire_score = crown_score,
           crown_fire_class = crown_cls,
           spotting_distance_km = spotting_dist,
           time_to_burn_5km2_hours = burn_time_5km2,
           damage_estimate_rs = damage_estimate,
           containment_difficulty = containment,
           occurrence_probability = occurrence_prob,
           expected_threat = expected_threat_score\<rparr>, self, console))"

text \<open>
  The threat colours are emoji; a string holds their UTF-8 bytes (U+1F534, U+1F7E0,
  U+1F7E1, U+1F7E2).
\<close>

definition red_circle :: string where
  "red_circle = [CHR 0xF0, CHR 0x9F, CHR 0x94, CHR 0xB4]"

definition orange_circle :: string where
  "orange_circle = [CHR 0xF0, CHR 0x9F, CHR 0x9F, CHR 0xA0]"

definition yellow_circle :: string where
  "yellow_circle = [CHR 0xF0, CHR 0x9F, CHR 0x9F, CHR 0xA1]"

definition green_circle :: string where
  "green_circle = [CHR 0xF0, CHR 0x9F, CHR 0x9F, CHR 0xA2]"

text \<open>\<open>str.lower()\<close> on the ASCII letters; the other bytes stay as they are.\<close>

definition lower_char :: "char \<Rightarrow> char" where
  "lower_char c =
     (if 65 \<le> (of_char c :: nat) \<and> (of_char c :: nat) \<le> 90
      then char_of ((of_char c :: nat) + 32) else c)"

definition py_lower :: "string \<Rightarrow> string" where
  "py_lower s = map lower_char s"

record threat_assessment =
  threat_level :: string
  threat_color :: string
  expected_threat_score :: real
  key_concerns :: "string list"
  summary :: string

text \<open>
  \<open>_generate_threat_assessment\<close>: the \<open>if\<close>/\<open>elif\<close> chain of the threat level, then the
  concerns, an empty list to which four independent \<open>if\<close> statements append.
\<close>

definition generate_threat_assessment :: "fire_metrics \<Rightarrow> threat_assessment" where
  "generate_threat_assessment m =
     (let severity_cls = severity_class m;
          crown_class = crown_fire_class m;
          containment = containment_difficulty m;
          expected = expected_threat m;
          (level, color) =
            (if expected > 0.7 \<or> severity_cls = ''Extreme'' then (''EXTREME'', red_circle)
             else if expected > 0.5 \<or> severity_cls = ''High'' then (''HIGH'', orange_circle)
             else if expected > 0.3 \<or> severity_cls = ''Moderate''
               then (''MODERATE'', yellow_circle)
             else (''LOW'', green_circle));
          concerns = [];
          concerns = (if crown_fire_score m > 60
                      then concerns @ [''High crown fire potential''] else concerns);
          concerns = (if spotting_distance_km m > 2
                      then concerns @ [''Long-range spotting risk''] else concerns);
          concerns = (if time_to_burn_5km2_hours m < 2
                      then concerns @ [''Rapid fire spread''] else concerns);
          concerns = (if containment \<in> set [''Hard'', ''Very difficult'']
                      then concerns @ [''Difficult suppression conditions''] else concerns)
      in \<lparr>threat_level = level,
          threat_color = color,
          expected_threat_score = expected,
          key_concerns = concerns,
          summary = color @ '' '' @ level @ '' wildfire threat with '' @ py_lower severity_cls
            @ '' severity and '' @ py_lower crown_class @ '' crown fire potential''\<rparr>)"

text \<open>
  \<open>predict_wildfire_threat\<close>: the four steps in order; an exception of a step ends the
  run. \<open>get_live_features\<close> is a collaborator and a parameter here. The console output of
  the run (progress lines and \<open>_display_results\<close>) is no part of the returned results.
\<close>

record threat_results =
  location :: "real \<times> real"
  live_features :: features
  ros_prediction_m_per_min :: real
  fire_behavior :: fire_metrics
  assessment :: threat_assessment

definition predict_wildfire_threat ::
  "physics \<Rightarrow> (real \<Rightarrow> real \<Rightarrow> py_error + features) \<Rightarrow> inference_system \<Rightarrow>
     real \<Rightarrow> real \<Rightarrow> py_error + threat_results" where
  "predict_wildfire_threat ph get_live_features self lat lon =
     and_then (get_live_features lat lon) (\<lambda>feats.
     and_then (predict_ros self feats) (\<lambda>ros_prediction.
       (let fire = fst (calculate_fire_behavior ph (self, []) feats ros_prediction);
            threat = generate_threat_assessment fire
        in Inr \<lparr>location = (lat, lon),
                 live_features = feats,
                 ros_prediction_m_per_min = ros_prediction,
                 fire_behavior = fire,
                 assessment = threat\<rparr>)))"

text \<open>
  Modelled from the spec: \<open>effective_ros\<close>, a function of the physics file that is not
  among the sources. The spec gives it as
  \<open>ros_base * slope_multiplier(slope_pct) * aspect_factor(aspect_deg)\<close>, floored at the same
  positive minimum as \<open>ros_base\<close> (0.01 m/min); the two factors are parameters.
\<close>

definition effective_ros ::
  "(real \<Rightarrow> real) \<Rightarrow> (real \<Rightarrow> real) \<Rightarrow> real \<Rightarrow> real \<Rightarrow> real \<Rightarrow> real" where
  "effective_ros slope_mult aspect_fact ros_base slope aspect =
     max 0.01 (ros_base * slope_mult slope * aspect_fact aspect)"

subsection \<open>The formulas as module-level names\<close>

text \<open>
  The source binds the physics formulas at import time by \<open>exec\<close> of the physics
  file, as names of the module; \<open>_calculate_fire_behavior\<close> looks them up and calls them.
  What a formula reads and writes beside its arguments is state of that module, of a
  type \<open>'g\<close> the sources do not show: here a formula takes the module state and returns
  its result with the module state it leaves.
\<close>

record 'g loaded_formulas =
  fuel_load_from_ndvi_st :: "real \<Rightarrow> 'g \<Rightarrow> real \<times> 'g"
  fuel_moisture_from_ndvi_ndmi_st :: "real \<Rightarrow> real \<Rightarrow> 'g \<Rightarrow> real \<times> 'g"
  slope_multiplier_st :: "real \<Rightarrow> 'g \<Rightarrow> real \<times> 'g"
  aspect_factor_st :: "real \<Rightarrow> 'g \<Rightarrow> real \<times> 'g"
  effective_ros_st :: "real \<Rightarrow> real \<Rightarrow> real \<Rightarrow> 'g \<Rightarrow> real \<times> 'g"
  byram_intensity_kWm_st :: "real \<Rightarrow> real \<Rightarrow> 'g \<Rightarrow> real \<times> 'g"
  flame_length_m_st :: "real \<Rightarrow> 'g \<Rightarrow> real \<times> 'g"
  severity_index_st :: "real \<Rightarrow> 'g \<Rightarrow> real \<times> 'g"
  severity_class_st :: "real \<Rightarrow> 'g \<Rightarrow> string \<times> 'g"
  crown_fire_score_st :: "real \<Rightarrow> real \<Rightarrow> real \<Rightarrow> 'g \<Rightarrow> real \<times> 'g"
  crown_fire_class_st :: "real \<Rightarrow> 'g \<Rightarrow> string \<times> 'g"
  spotting_distance_km_st :: "real \<Rightarrow> real \<Rightarrow> 'g \<Rightarrow> real \<times> 'g"
  time_to_burn_window_hours_st :: "real \<Rightarrow> real \<Rightarrow> 'g \<Rightarrow> real \<times> 'g"
  damage_in_window_rs_st :: "real \<Rightarrow> real \<Rightarrow> real \<Rightarrow> 'g \<Rightarrow> real \<times> 'g"
  containment_difficulty_st :: "real \<Rightarrow> real \<Rightarrow> real \<Rightarrow> 'g \<Rightarrow> string \<times> 'g"
  expected_threat_st :: "real \<Rightarrow> real \<Rightarrow> 'g \<Rightarrow> real \<times> 'g"

text \<open>
  \<open>_calculate_fire_behavior\<close> once more, now with the module state handed from call to
  call in the order of the source, beside the instance and the console.
\<close>

definition calculate_fire_behavior_st ::
  "'g loaded_formulas \<Rightarrow> inference_system \<times> string list \<times> 'g \<Rightarrow> features \<Rightarrow> real \<Rightarrow>
     fire_metrics \<times> inference_system \<times> string list \<times> 'g" where
  "calculate_fire_behavior_st fs st f ros_m_min =
     (let self = fst st; console = fst (snd st); g = snd (snd st);
          wind_ms = wind_speed_ms f;
          console = console @ [''   Calculating fuel properties...''];
          (fuel_load, g) = fuel_load_from_ndvi_st fs (ndvi f) g;
          (fuel_moisture, g) = fuel_moisture_from_ndvi_ndmi_st fs (ndvi f) (ndmi f) g;
          console = console @ [''   Calculating terrain effects...''];
          (slope_mult, g) = slope_multiplier_st fs (slope_pct f) g;
          (aspect_fact, g) = aspect_factor_st fs (aspect_deg f) g;
          (ros_effective, g) = effective_ros_st fs ros_m_min (slope_pct f) (aspect_deg f) g;
          console = console @ [''   Calculating fire intensity...''];
          (intensity, g) = byram_intensity_kWm_st fs ros_effective fuel_load g;
          (flame_length, g) = flame_length_m_st fs intensity g;
          (severity_idx, g) = severity_index_st fs flame_length g;
          (severity_cls, g) = severity_class_st fs flame_length g;
          console = console @ [''   Calculating crown fire potential...''];
          (crown_score, g) = crown_fire_score_st fs intensity wind_ms (ndvi f) g;
          (crown_cls, g) = crown_fire_class_st fs crown_score g;
          console = console @ [''   Calculating spotting and spread...''];
          (spotting_dist, g) = spotting_distance_km_st fs wind_ms flame_length g;
          console = console @ [''   Calculating time and damage estimates...''];
          (burn_time_5km2, g) = time_to_burn_window_hours_st fs ros_effective 5.0 g;
          (damage_estimate, g) = damage_in_window_rs_st fs ros_effective 50000 5.0 g;
          console = console @ [''   Calculating containment difficulty...''];
          (containment, g) = containment_difficulty_st fs flame_length (slope_pct f) 2.0 g;
          occurrence_prob = min 1.0 (severity_idx * (crown_score / 100.0));
          (expected_threat_score, g) = expected_threat_st fs occurrence_prob severity_idx g
      in (\<lparr>ros_base_m_per_min = ros_m_min,
           ros_effective_m_per_min = ros_effective,
           slope_multiplier = slope_mult,
           aspect_factor = aspect_fact,
           fuel_load_kg_m2 = fuel_load,
           fuel_moisture_pct = fuel_moisture,
           intensity_kW_per_m = intensity,
           flame_length_m = flame_length,
           severity_index = severity_idx,
           severity_class = severity_cls,
           crown_fire_score = crown_score,
           crown_fire_class = crown_cls,
           spotting_distance_km = spotting_dist,
           time_to_burn_5km2_hours = burn_time_5km2,
           damage_estimate_rs = damage_estimate,
           containment_difficulty = containment,
           occurrence_probability = occurrence_prob,
           expected_threat = expected_threat_score\<rparr>, self, console, g))"

text \<open>
  Modelled from the spec: the formulas of the physics file, which is not among the
  sources. The spec (section 4.1) gives them as pure, side-effect-free transformation
  functions with no I/O and no shared state: each returns a function of its arguments
  and leaves the module state as it found it.
\<close>

definition side_effect_free :: "physics \<Rightarrow> 'g loaded_formulas" where
  "side_effect_free ph =
     \<lparr>fuel_load_from_ndvi_st = (\<lambda>v g. (fuel_load_from_ndvi_fn ph v, g)),
      fuel_moisture_from_ndvi_ndmi_st = (\<lambda>v w g. (fuel_moisture_from_ndvi_ndmi_fn ph v w, g)),
      slope_multiplier_st = (\<lambda>s g. (slope_multiplier_fn ph s, g)),
      aspect_factor_st = (\<lambda>a g. (aspect_factor_fn ph a, g)),
      effective_ros_st = (\<lambda>r s a g. (effective_ros_fn ph r s a, g)),
      byram_intensity_kWm_st = (\<lambda>r w g. (byram_intensity_kWm_fn ph r w, g)),
      flame_length_m_st = (\<lambda>i g. (flame_length_m_fn ph i, g)),
      severity_index_st = (\<lambda>l g. (severity_index_fn ph l, g)),
      severity_class_st = (\<lambda>l g. (severity_class_fn ph l, g)),
      crown_fire_score_st = (\<lambda>i w v g. (crown_fire_score_fn ph i w v, g)),
      crown_fire_class_st = (\<lambda>s g. (crown_fire_class_fn ph s, g)),
      spotting_distance_km_st = (\<lambda>w l g. (spotting_distance_km_fn ph w l, g)),
      time_to_burn_window_hours_st = (\<lambda>r a g. (time_to_burn_window_hours_fn ph r a, g)),
      damage_in_window_rs_st = (\<lambda>r c a g. (damage_in_window_rs_fn ph r c a, g)),
      containment_difficulty_st = (\<lambda>l s d g. (containment_difficulty_fn ph l s d, g)),
      expected_threat_st = (\<lambda>p s g. (expected_threat_fn ph p s, g))\<rparr>"

text \<open>
  Two instrumented sets of formulas. In the first the module state is the list of the
  rates of spread that the four formulas taking one have been handed, in call order. In
  the second one formula keeps a call counter in the module state and answers with it.
\<close>

definition rate_recording :: "physics \<Rightarrow> (real list) loaded_formulas" where
  "rate_recording ph =
     (side_effect_free ph)
       \<lparr>effective_ros_st := (\<lambda>r s a g. (effective_ros_fn ph r s a, g @ [r])),
        byram_intensity_kWm_st := (\<lambda>r w g. (byram_intensity_kWm_fn ph r w, g @ [r])),
        time_to_burn_window_hours_st :=
          (\<lambda>r a g. (time_to_burn_window_hours_fn ph r a, g @ [r])),
        damage_in_window_rs_st := (\<lambda>r c a g. (damage_in_window_rs_fn ph r c a, g @ [r]))\<rparr>"

definition call_counting :: "physics \<Rightarrow> nat loaded_formulas" where
  "call_counting ph =
     (side_effect_free ph)\<lparr>severity_index_st := (\<lambda>l n. (real n, Suc n))\<rparr>"

subsection \<open>The binary classification path (simple\_predict.py)\<close>

text \<open>
  \<open>round(x, 2)\<close>: to the nearest hundredth, a tie to the even one.
\<close>

definition py_round2 :: "real \<Rightarrow> real" where
  "py_round2 x =
     (let y = x * 100; n = \<lfloor>y\<rfloor>; d = y - of_int n
      in of_int (if d < 1 / 2 then n else if 1 / 2 < d then n + 1
                 else if even n then n else n + 1) / 100)"

text \<open>
  What the request to Open-Meteo gives: an exception (of the request, of
  \<open>raise_for_status\<close> or of the JSON decoding) or the decoded object, of which the
  source reads the numbers under \<open>current\<close>; \<open>None\<close> is an object with no such key.
\<close>

datatype weather_http = WeatherRaised string | WeatherJson "(string \<rightharpoonup> real) option"

record weather_data =
  tmax_c :: real
  rh_pct :: real
  ws_mean_mps :: real
  precip_mm_24h :: real
  vpd_kpa :: real

text \<open>
  \<open>get_weather_data\<close> returns the pair \<open>(data, None)\<close> or \<open>(None, f"Error: {e}")\<close>:
  here \<open>Inr data\<close> or \<open>Inl message\<close>. A missing number takes the default of its
  \<open>.get\<close>. The division by \<open>temp_c + 237.3\<close> raises ZeroDivisionError at zero, inside
  the \<open>try\<close>.
\<close>

definition get_weather_data :: "weather_http \<Rightarrow> string + weather_data" where
  "get_weather_data resp =
     (case resp of
        WeatherRaised e \<Rightarrow> Inl (''Error: '' @ e)
      | WeatherJson data \<Rightarrow>
          (let current = (case data of None \<Rightarrow> Map.empty | Some c \<Rightarrow> c);
               temp = (case current ''temperature_2m'' of None \<Rightarrow> 25 | Some v \<Rightarrow> v);
               rh = (case current ''relative_humidity_2m'' of None \<Rightarrow> 50 | Some v \<Rightarrow> v);
               ws_kmh = (case current ''wind_speed_10m'' of None \<Rightarrow> 5 | Some v \<Rightarrow> v);
               ws = ws_kmh / 3.6
           in if temp + 237.3 = 0 then Inl ''Error: float division by zero''
              else
                (let svp = 0.6108 * exp (17.27 * temp / (temp + 237.3));
                     vpd = svp * (1 - rh / 100)
                 in Inr \<lparr>tmax_c = temp,
                          rh_pct = rh,
                          ws_mean_mps = py_round2 ws,
                          precip_mm_24h =
                            (case current ''precipitation'' of None \<Rightarrow> 0 | Some v \<Rightarrow> v),
                          vpd_kpa = py_round2 vpd\<rparr>)))"

text \<open>
  What the request to the lightning API gives: an exception, or the decoded object, of
  which the source reads the list under \<open>response\<close> (\<open>None\<close> when the key is missing or
  null); a strike is kept as its text.
\<close>

datatype lightning_http = LightningRaised string | LightningJson "string list option"

text \<open>
  \<open>WildfirePredictor.get_lightning_data\<close>: \<open>(1, len(response))\<close> when the list is
  there and not empty, \<open>(0, 0)\<close> otherwise, and \<open>(0, 0)\<close> from the bare \<open>except\<close>.
\<close>

definition get_lightning_data :: "lightning_http \<Rightarrow> int \<times> int" where
  "get_lightning_data resp =
     (case resp of
        LightningRaised e \<Rightarrow> (0, 0)
      | LightningJson response \<Rightarrow>
          (case response of
             None \<Rightarrow> (0, 0)
           | Some strikes \<Rightarrow>
               if strikes \<noteq> [] \<and> 0 < length strikes then (1, int (length strikes))
               else (0, 0)))"

text \<open>
  \<open>WildfirePredictionAPI.get_lightning_data\<close> (wildfire\_model.py): the flag alone,
  \<open>0\<close> from the handler ("Default to no lightning if API fails").
\<close>

definition api_get_lightning_data :: "lightning_http \<Rightarrow> int" where
  "api_get_lightning_data resp =
     (case resp of
        LightningRaised e \<Rightarrow> 0
      | LightningJson response \<Rightarrow>
          (case response of
             None \<Rightarrow> 0
           | Some strikes \<Rightarrow> if strikes \<noteq> [] \<and> 0 < length strikes then 1 else 0))"

text \<open>
  A \<open>WildfirePredictor\<close>: the credentials and the classifier, whose two calls are
  \<open>float(predict_proba(features)[0][1])\<close> and \<open>int(predict(features)[0])\<close>.
\<close>

record wildfire_predictor =
  xweather_client_id :: "string option"
  xweather_client_secret :: "string option"
  predict_proba :: "real list \<Rightarrow> py_error + real"
  predict :: "real list \<Rightarrow> py_error + int"

text \<open>
  The collaborators a request reaches: the two web services, the clock
  (\<open>datetime.now().isoformat()\<close>), the import and construction of the inference system
  with its physics formulas, and the live-feature fetcher.
\<close>

record services =
  open_meteo :: "real \<Rightarrow> real \<Rightarrow> weather_http"
  aeris_lightning :: "real \<Rightarrow> real \<Rightarrow> lightning_http"
  now_isoformat :: string
  load_inference_system :: "py_error + physics \<times> inference_system"
  get_live_features :: "real \<Rightarrow> real \<Rightarrow> py_error + features"

text \<open>The dictionary of a prediction, and the two shapes \<open>predict_dict\<close> returns.\<close>

record prediction =
  timestamp :: string
  latitude :: real
  longitude :: real
  temperature_celsius :: real
  relative_humidity_percent :: real
  wind_speed_mps :: real
  precipitation_mm_24h :: real
  vapor_pressure_deficit_kpa :: real
  detected :: bool
  strike_count_24h :: int
  fire_risk_percentage :: real
  risk_level :: string
  fire_expected :: bool

datatype predict_result = PredictError string string | Prediction prediction

definition feature_row :: "weather_data \<Rightarrow> int \<Rightarrow> real list" where
  "feature_row weather lightning =
     [tmax_c weather, rh_pct weather, ws_mean_mps weather, precip_mm_24h weather,
      vpd_kpa weather, of_int lightning]"

text \<open>
  \<open>predict_dict\<close>. A weather error returns the error dictionary; the lightning data
  are taken as they come; an exception of the classifier is caught and returns the
  error dictionary; \<open>risk_levels[risk_index]\<close> stands outside the \<open>try\<close>.
\<close>

definition predict_dict ::
  "wildfire_predictor \<Rightarrow> services \<Rightarrow> real \<Rightarrow> real \<Rightarrow> py_error + predict_result" where
  "predict_dict self srv lat lon =
     (case get_weather_data (open_meteo srv lat lon) of
        Inl error \<Rightarrow> Inr (PredictError error (now_isoformat srv))
      | Inr weather \<Rightarrow>
          (let (lightning, strike_count) = get_lightning_data (aeris_lightning srv lat lon);
               row = feature_row weather lightning
           in case and_then (predict_proba self row) (\<lambda>probability.
                   and_then (predict self row) (\<lambda>prediction.
                     Inr (probability, prediction))) of
                Inl e \<Rightarrow>
                  Inr (PredictError (''Model prediction failed: '' @ str_of_error e)
                         (now_isoformat srv))
              | Inr (probability, prediction) \<Rightarrow>
                  (case classify_risk probability of
                     None \<Rightarrow> Inl IndexError
                   | Some level \<Rightarrow>
                       Inr (Prediction
                         \<lparr>timestamp = now_isoformat srv,
                          latitude = lat,
                          longitude = lon,
                          temperature_celsius = tmax_c weather,
                          relative_humidity_percent = rh_pct weather,
                          wind_speed_mps = ws_mean_mps weather,
                          precipitation_mm_24h = precip_mm_24h weather,
                          vapor_pressure_deficit_kpa = vpd_kpa weather,
                          detected = (lightning \<noteq> 0),
                          strike_count_24h = strike_count,
                          fire_risk_percentage = py_round2 (probability * 100),
                          risk_level = level,
                          fire_expected = (prediction \<noteq> 0)\<rparr>))))"

subsection \<open>The HTTP routes (app\_fixed.py)\<close>

text \<open>
  A response is the JSON body with the status; \<open>jsonify(x)\<close> alone has status 200. An
  exception that leaves a view function is answered by the framework with its own page
  and status 500. The query arguments are a map; \<open>float(s)\<close> on a query string is the
  parameter \<open>to_float\<close>, \<open>None\<close> where it raises ValueError.
\<close>

datatype body =
    ErrorBody string
  | PredictBody predict_result
  | ThreatBody threat_results
  | FallbackBody string string predict_result
  | ServerErrorPage

definition result_timestamp :: "predict_result \<Rightarrow> string" where
  "result_timestamp r = (case r of PredictError msg ts \<Rightarrow> ts | Prediction p \<Rightarrow> timestamp p)"

definition predict_route ::
  "(string \<Rightarrow> real option) \<Rightarrow> wildfire_predictor \<Rightarrow> services \<Rightarrow> (string \<rightharpoonup> string) \<Rightarrow>
     body \<times> nat" where
  "predict_route to_float predictor srv args =
     (case (args ''lat'', args ''lon'') of
        (Some lat, Some lon) \<Rightarrow>
          (case to_float lat of
             None \<Rightarrow> (ErrorBody ''Invalid lat or lon values'', 400)
           | Some latf \<Rightarrow>
               (case to_float lon of
                  None \<Rightarrow> (ErrorBody ''Invalid lat or lon values'', 400)
                | Some lonf \<Rightarrow>
                    (case predict_dict predictor srv latf lonf of
                       Inl e \<Rightarrow> (ServerErrorPage, 500)
                     | Inr result \<Rightarrow> (PredictBody result, 200))))
      | _ \<Rightarrow> (ErrorBody ''Missing lat or lon parameters'', 400))"

text \<open>
  \<open>analyze_threat_route\<close>: the import, the construction and the run of the inference
  system stand in one \<open>try\<close>; its handler answers 500 with the basic prediction as
  fallback data.
\<close>

definition analyze_threat_route ::
  "(string \<Rightarrow> real option) \<Rightarrow> wildfire_predictor \<Rightarrow> services \<Rightarrow> (string \<rightharpoonup> string) \<Rightarrow>
     body \<times> nat" where
  "analyze_threat_route to_float predictor srv args =
     (case (args ''lat'', args ''lon'') of
        (Some lat, Some lon) \<Rightarrow>
          (case to_float lat of
             None \<Rightarrow> (ErrorBody ''Invalid lat or lon values'', 400)
           | Some latf \<Rightarrow>
               (case to_float lon of
                  None \<Rightarrow> (ErrorBody ''Invalid lat or lon values'', 400)
                | Some lonf \<Rightarrow>
                    (case and_then (load_inference_system srv) (\<lambda>(ph, threat_system).
                            predict_wildfire_threat ph (get_live_features srv) threat_system
                              latf lonf) of
                       Inr result \<Rightarrow> (ThreatBody result, 200)
                     | Inl e \<Rightarrow>
                         (case predict_dict predictor srv latf lonf of
                            Inl e' \<Rightarrow> (ServerErrorPage, 500)
                          | Inr basic_prediction \<Rightarrow>
                              (FallbackBody
                                 (''Comprehensive threat analysis failed: '' @ str_of_error e)
                                 (result_timestamp basic_prediction) basic_prediction, 500)))))
      | _ \<Rightarrow> (ErrorBody ''Missing lat or lon parameters'', 400))"

subsection \<open>The concern flags as the specification words them\<close>

text \<open>
  The specification lists four flags in a fixed order, each with its own condition on
  the metrics; \<open>concern_holds\<close> is that table, to be compared with the list the code
  builds.
\<close>

definition all_concerns :: "string list" where
  "all_concerns =
     [''High crown fire potential'', ''Long-range spotting risk'', ''Rapid fire spread'',
      ''Difficult suppression conditions'']"

definition concern_holds :: "fire_metrics \<Rightarrow> string \<Rightarrow> bool" where
  "concern_holds m c =
     (c = ''High crown fire potential'' \<and> crown_fire_score m > 60
      \<or> c = ''Long-range spotting risk'' \<and> spotting_distance_km m > 2
      \<or> c = ''Rapid fire spread'' \<and> time_to_burn_5km2_hours m < 2
      \<or> c = ''Difficult suppression conditions''
          \<and> containment_difficulty m \<in> {''Hard'', ''Very difficult''})"

subsection \<open>Concrete inputs\<close>

text \<open>
  The fallback \<open>get_live_features\<close> of the source with the features it returns, and
  collaborators with fixed answers: a physics record with simple formulas whose severity
  index and crown-fire score are given numbers, a regression model and a classifier with
  a given answer, web services with given responses, and a \<open>float\<close> that reads the two
  coordinates of the sample query. The examples below run the model on them.
\<close>

definition fallback_features :: features where
  "fallback_features =
     \<lparr>temp_c = 25.0, rel_humidity_pct = 50.0, wind_speed_ms = 5.0, precip_mm = 0.0,
      features.vpd_kpa = 1.5, fwi = 10.0, ndvi = 0.5, ndmi = 0.3, lfmc_proxy_pct = 100.0,
      elevation_m = 500.0, slope_pct = 10.0, aspect_deg = 180.0\<rparr>"

definition sample_physics :: "real \<Rightarrow> real \<Rightarrow> physics" where
  "sample_physics sev crown =
     \<lparr>fuel_load_from_ndvi_fn = (\<lambda>v. max 0 v),
      fuel_moisture_from_ndvi_ndmi_fn = (\<lambda>v w. 50),
      slope_multiplier_fn = (\<lambda>s. 1 + \<bar>s\<bar> / 100),
      aspect_factor_fn = (\<lambda>a. 1),
      effective_ros_fn = effective_ros (\<lambda>s. 1 + \<bar>s\<bar> / 100) (\<lambda>a. 1),
      byram_intensity_kWm_fn = (\<lambda>r w. 300 * r * w),
      flame_length_m_fn = (\<lambda>i. i / 1000),
      severity_index_fn = (\<lambda>l. sev),
      severity_class_fn = (\<lambda>l. ''High''),
      crown_fire_score_fn = (\<lambda>i w v. crown),
      crown_fire_class_fn = (\<lambda>s. ''Active''),
      spotting_distance_km_fn = (\<lambda>w l. w * l / 10),
      time_to_burn_window_hours_fn = (\<lambda>r a. a / r),
      damage_in_window_rs_fn = (\<lambda>r c a. c * a * 100),
      containment_difficulty_fn = (\<lambda>l s d. ''Hard''),
      expected_threat_fn = (\<lambda>p s. p * s)\<rparr>"

definition fallback_get_live_features :: "real \<Rightarrow> real \<Rightarrow> py_error + features" where
  "fallback_get_live_features lat lon = Inr fallback_features"

definition sample_system :: "real \<Rightarrow> inference_system" where
  "sample_system y = \<lparr>model = (\<lambda>row. Inr y), scaler = None, feature_columns = None\<rparr>"

definition sample_weather :: weather_http where
  "sample_weather =
     WeatherJson (Some [''temperature_2m'' \<mapsto> 0, ''relative_humidity_2m'' \<mapsto> 50,
       ''wind_speed_10m'' \<mapsto> 18, ''precipitation'' \<mapsto> 0])"

definition sample_services :: "weather_http \<Rightarrow> lightning_http \<Rightarrow> services" where
  "sample_services w l =
     \<lparr>open_meteo = (\<lambda>lat lon. w),
      aeris_lightning = (\<lambda>lat lon. l),
      now_isoformat = ''2025-01-01T00:00:00'',
      load_inference_system = Inr (sample_physics 1 100, sample_system 0.5),
      get_live_features = fallback_get_live_features\<rparr>"

definition sample_predictor :: "py_error + real \<Rightarrow> wildfire_predictor" where
  "sample_predictor p =
     \<lparr>xweather_client_id = Some ''demo'',
      xweather_client_secret = Some ''demo'',
      predict_proba = (\<lambda>row. p),
      predict = (\<lambda>row. Inr 0)\<rparr>"

definition sample_to_float :: "string \<Rightarrow> real option" where
  "sample_to_float s =
     (if s = ''19.05'' then Some 19.05 else if s = ''72.87'' then Some 72.87 else None)"

definition sample_args :: "string \<rightharpoonup> string" where
  "sample_args = [''lat'' \<mapsto> ''19.05'', ''lon'' \<mapsto> ''72.87'']"

section \<open>Properties\<close>

subsection \<open>The risk classifier\<close>

lemma risk_index_cases:
  assumes "0 \<le> p" and "p \<le> 1"
  shows "risk_index p =
    (if p < 0.2 then 0 else if p < 0.4 then 1 else if p < 0.6 then 2
     else if p < 0.8 then 3 else 4)"
  using assms unfolding risk_index_def py_int_def
  by (auto simp: min_def floor_eq_iff not_less not_le)

lemma risk_levels_at:
  "py_getitem risk_levels 0 = Some ''Low''"
  "py_getitem risk_levels 1 = Some ''Moderate''"
  "py_getitem risk_levels 2 = Some ''High''"
  "py_getitem risk_levels 3 = Some ''Very High''"
  "py_getitem risk_levels 4 = Some ''Extreme''"
  by (simp_all add: py_getitem_def risk_levels_def)

text \<open>
  C1. For a probability \<open>p\<close> in \<open>[0, 1]\<close> the index is \<open>min(floor(p * 5), 4)\<close>, and the
  label is Low below 0.2, Moderate from 0.2 to below 0.4, High from 0.4 to below 0.6,
  Very High from 0.6 to below 0.8 and Extreme from 0.8 up to 1.0, where the index of
  \<open>p = 1.0\<close> is 4 and not 5.
\<close>

theorem classify_risk_buckets:
  assumes "0 \<le> p" and "p \<le> 1"
  shows "risk_index p = min \<lfloor>p * 5\<rfloor> 4
    \<and> (p < 0.2 \<longrightarrow> classify_risk p = Some ''Low'')
    \<and> (0.2 \<le> p \<and> p < 0.4 \<longrightarrow> classify_risk p = Some ''Moderate'')
    \<and> (0.4 \<le> p \<and> p < 0.6 \<longrightarrow> classify_risk p = Some ''High'')
    \<and> (0.6 \<le> p \<and> p < 0.8 \<longrightarrow> classify_risk p = Some ''Very High'')
    \<and> (0.8 \<le> p \<longrightarrow> classify_risk p = Some ''Extreme'')
    \<and> (p = 1 \<longrightarrow> risk_index p = 4)"
proof -
  have fl: "risk_index p = min \<lfloor>p * 5\<rfloor> 4"
    using assms by (simp add: risk_index_def py_int_def)
  have ix: "risk_index p =
    (if p < 0.2 then 0 else if p < 0.4 then 1 else if p < 0.6 then 2
     else if p < 0.8 then 3 else 4)"
    using assms by (rule risk_index_cases)
  have one: "p = 1 \<longrightarrow> risk_index p = 4"
    using ix by auto
  have lab: "classify_risk p = py_getitem risk_levels
    (if p < 0.2 then 0 else if p < 0.4 then 1 else if p < 0.6 then 2
     else if p < 0.8 then 3 else 4)"
    by (simp only: classify_risk_def ix)
  show ?thesis
    using fl one by (simp add: lab risk_levels_at)
qed

theorem classify_risk_buckets_witness:
  "(0::real) \<le> 0.2 \<and> (0.2::real) \<le> 1 \<and> classify_risk 0.2 = Some ''Moderate''
   \<and> classify_risk 0 = Some ''Low'' \<and> classify_risk 0.199 = Some ''Low''
   \<and> classify_risk 0.999 = Some ''Extreme'' \<and> classify_risk 1 = Some ''Extreme''
   \<and> risk_index 1 = 4"
  using classify_risk_buckets [of "0.2"] classify_risk_buckets [of 0]
    classify_risk_buckets [of "0.199"] classify_risk_buckets [of "0.999"]
    classify_risk_buckets [of 1]
  by simp

text \<open>
  C9. For a probability \<open>p\<close> in \<open>[0, 1]\<close>, indexing the labels with
  \<open>min(int(p * 5), 4)\<close> gives the label of the threshold cascade of
  \<open>_get_risk_level\<close>.
\<close>

theorem risk_classifiers_agree:
  assumes "0 \<le> p" and "p \<le> 1"
  shows "classify_risk p = Some (get_risk_level p)"
  using assms
  by (simp add: classify_risk_def risk_index_cases get_risk_level_def risk_levels_at)

theorem risk_classifiers_agree_witness:
  "(0::real) \<le> 0.6 \<and> (0.6::real) \<le> 1 \<and> classify_risk 0.6 = Some ''Very High''
    \<and> get_risk_level 0.6 = ''Very High''"
  using risk_classifiers_agree [of "0.6"] by (simp add: get_risk_level_def)

subsection \<open>The threat assessment\<close>

text \<open>
  C2. The threat level is the first match of the cascade: EXTREME when the expected
  threat is above 0.7 or the severity class is Extreme, otherwise HIGH when it is above
  0.5 or the class is High, otherwise MODERATE when it is above 0.3 or the class is
  Moderate, otherwise LOW. With the class Extreme and an expected threat of 0.1 the
  level is EXTREME.
\<close>

theorem threat_level_cascade:
  "threat_level (generate_threat_assessment m) =
     (if expected_threat m > 0.7 \<or> severity_class m = ''Extreme'' then ''EXTREME''
      else if expected_threat m > 0.5 \<or> severity_class m = ''High'' then ''HIGH''
      else if expected_threat m > 0.3 \<or> severity_class m = ''Moderate'' then ''MODERATE''
      else ''LOW'')
   \<and> threat_level (generate_threat_assessment
         (m\<lparr>severity_class := ''Extreme'', expected_threat := 0.1\<rparr>)) = ''EXTREME''"
  by (simp add: generate_threat_assessment_def Let_def)

lemma key_concerns_unfold:
  "key_concerns (generate_threat_assessment m) =
     (if crown_fire_score m > 60 then [''High crown fire potential''] else [])
     @ (if spotting_distance_km m > 2 then [''Long-range spotting risk''] else [])
     @ (if time_to_burn_5km2_hours m < 2 then [''Rapid fire spread''] else [])
     @ (if containment_difficulty m \<in> {''Hard'', ''Very difficult''}
        then [''Difficult suppression conditions''] else [])"
  by (simp add: generate_threat_assessment_def Let_def split_def)

text \<open>
  C4. The concerns are exactly the flags whose conditions hold, each on its own, in the
  order crown fire, spotting, rapid spread, suppression: the list is the fixed list of
  the four flags filtered by their conditions. With a crown-fire score of 70, a spotting
  distance of 3 km, a burn time of 1 hour and the containment Hard, all four are there
  in that order.
\<close>

theorem key_concerns_exact:
  "key_concerns (generate_threat_assessment m) = filter (concern_holds m) all_concerns
   \<and> (''High crown fire potential'' \<in> set (key_concerns (generate_threat_assessment m))
        \<longleftrightarrow> crown_fire_score m > 60)
   \<and> (''Long-range spotting risk'' \<in> set (key_concerns (generate_threat_assessment m))
        \<longleftrightarrow> spotting_distance_km m > 2)
   \<and> (''Rapid fire spread'' \<in> set (key_concerns (generate_threat_assessment m))
        \<longleftrightarrow> time_to_burn_5km2_hours m < 2)
   \<and> (''Difficult suppression conditions'' \<in> set (key_concerns (generate_threat_assessment m))
        \<longleftrightarrow> containment_difficulty m \<in> {''Hard'', ''Very difficult''})
   \<and> key_concerns (generate_threat_assessment
         (m\<lparr>crown_fire_score := 70, spotting_distance_km := 3, time_to_burn_5km2_hours := 1,
            containment_difficulty := ''Hard''\<rparr>)) =
       [''High crown fire potential'', ''Long-range spotting risk'', ''Rapid fire spread'',
        ''Difficult suppression conditions'']"
  unfolding key_concerns_unfold
  by (simp add: concern_holds_def all_concerns_def)

subsection \<open>The fire behaviour\<close>

lemma metrics_of_run:
  "fst (calculate_fire_behavior ph st f ros) =
     (let ros_effective = effective_ros_fn ph ros (slope_pct f) (aspect_deg f);
          fuel_load = fuel_load_from_ndvi_fn ph (ndvi f);
          intensity = byram_intensity_kWm_fn ph ros_effective fuel_load;
          flame_length = flame_length_m_fn ph intensity;
          severity_idx = severity_index_fn ph flame_length;
          crown_score = crown_fire_score_fn ph intensity (wind_speed_ms f) (ndvi f);
          occurrence_prob = min 1 (severity_idx * (crown_score / 100))
      in \<lparr>ros_base_m_per_min = ros,
           ros_effective_m_per_min = ros_effective,
           slope_multiplier = slope_multiplier_fn ph (slope_pct f),
           aspect_factor = aspect_factor_fn ph (aspect_deg f),
           fuel_load_kg_m2 = fuel_load,
           fuel_moisture_pct = fuel_moisture_from_ndvi_ndmi_fn ph (ndvi f) (ndmi f),
           intensity_kW_per_m = intensity,
           flame_length_m = flame_length,
           severity_index = severity_idx,
           severity_class = severity_class_fn ph flame_length,
           crown_fire_score = crown_score,
           crown_fire_class = crown_fire_class_fn ph crown_score,
           spotting_distance_km = spotting_distance_km_fn ph (wind_speed_ms f) flame_length,
           time_to_burn_5km2_hours = time_to_burn_window_hours_fn ph ros_effective 5,
           damage_estimate_rs = damage_in_window_rs_fn ph ros_effective 50000 5,
           containment_difficulty = containment_difficulty_fn ph flame_length (slope_pct f) 2,
           occurrence_probability = occurrence_prob,
           expected_threat = expected_threat_fn ph occurrence_prob severity_idx\<rparr>)"
  by (simp add: calculate_fire_behavior_def Let_def)

text \<open>
  C3. In the metrics that \<open>_calculate_fire_behavior\<close> returns, the occurrence
  probability is \<open>min(1.0, severity_index * (crown_fire_score / 100))\<close>. It is never
  above 1, also when the product is; it is not below 0 when the severity index and the
  crown-fire score are not negative, as the contracts of the two formulas say; and a
  severity index of 1 with a crown-fire score of 100 gives exactly 1.
\<close>

theorem occurrence_probability_clamped:
  "(let m = fst (calculate_fire_behavior ph st f ros) in
      occurrence_probability m = min 1 (severity_index m * (crown_fire_score m / 100))
      \<and> occurrence_probability m \<le> 1
      \<and> (0 \<le> severity_index m \<and> 0 \<le> crown_fire_score m \<longrightarrow> 0 \<le> occurrence_probability m)
      \<and> (severity_index m = 1 \<and> crown_fire_score m = 100 \<longrightarrow> occurrence_probability m = 1))"
  by (simp add: metrics_of_run Let_def)

theorem occurrence_probability_clamped_witness:
  "severity_index (fst (calculate_fire_behavior (sample_physics 1 100) (sample_system 0.5, [])
       fallback_features 0.5)) = 1
   \<and> crown_fire_score (fst (calculate_fire_behavior (sample_physics 1 100) (sample_system 0.5, [])
       fallback_features 0.5)) = 100
   \<and> occurrence_probability (fst (calculate_fire_behavior (sample_physics 1 100)
       (sample_system 0.5, []) fallback_features 0.5)) = 1
   \<and> severity_index (fst (calculate_fire_behavior (sample_physics 2 100) (sample_system 0.5, [])
       fallback_features 0.5))
     * (crown_fire_score (fst (calculate_fire_behavior (sample_physics 2 100)
          (sample_system 0.5, []) fallback_features 0.5)) / 100) = 2
   \<and> occurrence_probability (fst (calculate_fire_behavior (sample_physics 2 100)
       (sample_system 0.5, []) fallback_features 0.5)) = 1"
  using occurrence_probability_clamped [of "sample_physics 1 100" "(sample_system 0.5, [])"
      fallback_features "0.5"]
    occurrence_probability_clamped [of "sample_physics 2 100" "(sample_system 0.5, [])"
      fallback_features "0.5"]
  by (simp add: metrics_of_run Let_def sample_physics_def)

lemma run_side_effect_free:
  "calculate_fire_behavior_st (side_effect_free ph) (self, out, g) f ros =
     (fst (calculate_fire_behavior ph (self, out) f ros), self, out @ progress_lines, g)"
  by (simp add: calculate_fire_behavior_st_def calculate_fire_behavior_def side_effect_free_def
      Let_def progress_lines_def)

lemma run_reads_no_instance:
  "fst (calculate_fire_behavior_st fs (self1, out1, g) f ros) =
     fst (calculate_fire_behavior_st fs (self2, out2, g) f ros)
   \<and> snd (snd (snd (calculate_fire_behavior_st fs (self1, out1, g) f ros))) =
     snd (snd (snd (calculate_fire_behavior_st fs (self2, out2, g) f ros)))
   \<and> fst (snd (calculate_fire_behavior_st fs (self1, out1, g) f ros)) = self1
   \<and> fst (snd (snd (calculate_fire_behavior_st fs (self1, out1, g) f ros))) =
       out1 @ progress_lines"
  by (simp add: calculate_fire_behavior_st_def Let_def split_def progress_lines_def)

lemma run_rate_recording:
  "calculate_fire_behavior_st (rate_recording ph) (self, out, seen) f ros =
     (fst (calculate_fire_behavior ph (self, out) f ros), self, out @ progress_lines,
      seen @ [ros, effective_ros_fn ph ros (slope_pct f) (aspect_deg f),
             effective_ros_fn ph ros (slope_pct f) (aspect_deg f),
             effective_ros_fn ph ros (slope_pct f) (aspect_deg f)])"
  by (simp add: calculate_fire_behavior_st_def calculate_fire_behavior_def side_effect_free_def
      rate_recording_def Let_def progress_lines_def)

lemma hidden_counter_changes_metrics:
  "severity_index (fst (calculate_fire_behavior_st (call_counting ph) (self, out, 0) f ros)) = 0
   \<and> snd (snd (snd (calculate_fire_behavior_st (call_counting ph) (self, out, 0) f ros))) = 1
   \<and> severity_index (fst (calculate_fire_behavior_st (call_counting ph) (self, out, 1) f ros)) = 1"
  by (simp add: calculate_fire_behavior_st_def side_effect_free_def call_counting_def Let_def)

text \<open>
  C8. Two runs of \<open>_calculate_fire_behavior\<close> on the same features and rate of spread
  return the same metrics, whatever the instance, the console and the module state are
  at each run, and a run leaves the instance and the module state as they were and adds
  the seven progress lines to the console: this for formulas that are side-effect free,
  as the specification gives them. For any formulas at all, the metrics and the module
  state after the run do not depend on the instance or on the console, the instance
  is left as it was and the console gains the seven lines: the method has no state of
  its own.
\<close>

theorem calculate_fire_behavior_stateless:
  "fst (calculate_fire_behavior_st (side_effect_free ph) (self1, out1, g1) f ros) =
     fst (calculate_fire_behavior_st (side_effect_free ph) (self2, out2, g2) f ros)
   \<and> snd (calculate_fire_behavior_st (side_effect_free ph) (self1, out1, g1) f ros) =
       (self1, out1 @ progress_lines, g1)
   \<and> fst (calculate_fire_behavior_st fs (self1, out1, g) f ros) =
       fst (calculate_fire_behavior_st fs (self2, out2, g) f ros)
   \<and> snd (snd (snd (calculate_fire_behavior_st fs (self1, out1, g) f ros))) =
       snd (snd (snd (calculate_fire_behavior_st fs (self2, out2, g) f ros)))
   \<and> fst (snd (calculate_fire_behavior_st fs (self1, out1, g) f ros)) = self1
   \<and> fst (snd (snd (calculate_fire_behavior_st fs (self1, out1, g) f ros))) =
       out1 @ progress_lines"
  using run_reads_no_instance [of fs self1 out1 g f ros self2 out2]
  by (simp add: run_side_effect_free metrics_of_run)

lemma predict_ros_floor: "predict_ros self f = Inr r \<Longrightarrow> 0.01 \<le> r"
  by (auto simp: predict_ros_def and_then_def split: sum.splits option.splits)

lemma predict_ros_returns:
  assumes "feature_array_of self f = Inr a"
    and "(case scaler self of None \<Rightarrow> Inr a | Some transform \<Rightarrow> transform a) = Inr a'"
    and "model self a' = Inr y"
  shows "predict_ros self f = Inr (max 0.01 y)"
  using assms by (simp add: predict_ros_def and_then_def)

lemma effective_ros_floor: "0.01 \<le> effective_ros sm af ros_base slope aspect"
  by (simp add: effective_ros_def)

lemma threat_run_parts:
  assumes "predict_wildfire_threat ph glf self lat lon = Inr res"
  shows "glf lat lon = Inr (live_features res)
     \<and> predict_ros self (live_features res) = Inr (ros_prediction_m_per_min res)
     \<and> fire_behavior res =
         fst (calculate_fire_behavior ph (self, []) (live_features res)
                (ros_prediction_m_per_min res))"
  using assms
  by (auto simp: predict_wildfire_threat_def and_then_def Let_def split: sum.splits)

lemma sample_run:
  "predict_wildfire_threat (sample_physics 1 100) fallback_get_live_features
     (sample_system (- 2)) 19.05822 72.87781 =
   Inr \<lparr>location = (19.05822, 72.87781),
        live_features = fallback_features,
        ros_prediction_m_per_min = 0.01,
        fire_behavior =
          fst (calculate_fire_behavior (sample_physics 1 100) (sample_system (- 2), [])
                 fallback_features 0.01),
        assessment = generate_threat_assessment
          (fst (calculate_fire_behavior (sample_physics 1 100) (sample_system (- 2), [])
                  fallback_features 0.01))\<rparr>"
  by (simp add: predict_wildfire_threat_def fallback_get_live_features_def predict_ros_def
      and_then_def feature_array_of_def sample_system_def Let_def)

text \<open>
  C5. Every rate of spread that a formula is handed is at least 0.01 m/min. What
  \<open>_predict_ros\<close> returns is at least 0.01, and it returns \<open>max(0.01, prediction)\<close>
  whenever the feature array, the scaler and the model return; \<open>effective_ros\<close> is at
  least 0.01 for all inputs. In a run of \<open>predict_wildfire_threat\<close> whose \<open>effective_ros\<close>
  is the one modelled from the specification, for any other formulas: the base rate is
  the clamped prediction; the effective rate is \<open>effective_ros\<close> of that base rate and
  is at least 0.01; the intensity, the burn time and the damage are their formulas
  applied to that effective rate; and the rates that the four formulas taking a rate are
  handed, recorded at the calls, are the base rate once and the effective rate three
  times.
\<close>

theorem ros_floor:
  "(\<forall>r. predict_ros self f = Inr r \<longrightarrow> 0.01 \<le> r)
   \<and> (\<forall>a a' y. feature_array_of self f = Inr a
         \<and> (case scaler self of None \<Rightarrow> Inr a | Some transform \<Rightarrow> transform a) = Inr a'
         \<and> model self a' = Inr y
       \<longrightarrow> predict_ros self f = Inr (max 0.01 y))
   \<and> 0.01 \<le> effective_ros sm af ros_base slope aspect
   \<and> (effective_ros_fn ph = effective_ros (slope_multiplier_fn ph) (aspect_factor_fn ph) \<longrightarrow>
        (\<forall>res. predict_wildfire_threat ph glf self lat lon = Inr res \<longrightarrow>
           0.01 \<le> ros_prediction_m_per_min res
           \<and> ros_base_m_per_min (fire_behavior res) = ros_prediction_m_per_min res
           \<and> 0.01 \<le> ros_effective_m_per_min (fire_behavior res)
           \<and> ros_effective_m_per_min (fire_behavior res) =
               effective_ros_fn ph (ros_base_m_per_min (fire_behavior res))
                 (slope_pct (live_features res)) (aspect_deg (live_features res))
           \<and> intensity_kW_per_m (fire_behavior res) =
               byram_intensity_kWm_fn ph (ros_effective_m_per_min (fire_behavior res))
                 (fuel_load_kg_m2 (fire_behavior res))
           \<and> time_to_burn_5km2_hours (fire_behavior res) =
               time_to_burn_window_hours_fn ph (ros_effective_m_per_min (fire_behavior res)) 5
           \<and> damage_estimate_rs (fire_behavior res) =
               damage_in_window_rs_fn ph (ros_effective_m_per_min (fire_behavior res)) 50000 5
           \<and> calculate_fire_behavior_st (rate_recording ph) (self, [], [])
                 (live_features res) (ros_prediction_m_per_min res) =
               (fire_behavior res, self, progress_lines,
                [ros_base_m_per_min (fire_behavior res),
                 ros_effective_m_per_min (fire_behavior res),
                 ros_effective_m_per_min (fire_behavior res),
                 ros_effective_m_per_min (fire_behavior res)])))"
proof (intro conjI allI impI)
  fix r assume "predict_ros self f = Inr r"
  then show "0.01 \<le> r" by (rule predict_ros_floor)
next
  fix a a' y
  assume "feature_array_of self f = Inr a
         \<and> (case scaler self of None \<Rightarrow> Inr a | Some transform \<Rightarrow> transform a) = Inr a'
         \<and> model self a' = Inr y"
  then show "predict_ros self f = Inr (max 0.01 y)"
    using predict_ros_returns by blast
next
  show "0.01 \<le> effective_ros sm af ros_base slope aspect" by (rule effective_ros_floor)
next
  fix res
  assume run: "predict_wildfire_threat ph glf self lat lon = Inr res"
  then have "predict_ros self (live_features res) = Inr (ros_prediction_m_per_min res)"
    using threat_run_parts by blast
  then show "0.01 \<le> ros_prediction_m_per_min res" by (rule predict_ros_floor)
next
  fix res
  assume eff: "effective_ros_fn ph = effective_ros (slope_multiplier_fn ph) (aspect_factor_fn ph)"
  assume run: "predict_wildfire_threat ph glf self lat lon = Inr res"
  then have fb: "fire_behavior res =
      fst (calculate_fire_behavior ph (self, []) (live_features res)
             (ros_prediction_m_per_min res))"
    using threat_run_parts by blast
  have "0.01 \<le> effective_ros (slope_multiplier_fn ph) (aspect_factor_fn ph)
      (ros_prediction_m_per_min res) (slope_pct (live_features res))
      (aspect_deg (live_features res))"
    by (rule effective_ros_floor)
  then show "0.01 \<le> ros_effective_m_per_min (fire_behavior res)"
    by (simp add: fb metrics_of_run Let_def eff)
next
  fix res
  assume run: "predict_wildfire_threat ph glf self lat lon = Inr res"
  then have fb: "fire_behavior res =
      fst (calculate_fire_behavior ph (self, []) (live_features res)
             (ros_prediction_m_per_min res))"
    using threat_run_parts by blast
  show "ros_base_m_per_min (fire_behavior res) = ros_prediction_m_per_min res"
    by (simp add: fb metrics_of_run Let_def)
  show "ros_effective_m_per_min (fire_behavior res) =
      effective_ros_fn ph (ros_base_m_per_min (fire_behavior res))
        (slope_pct (live_features res)) (aspect_deg (live_features res))"
    by (simp add: fb metrics_of_run Let_def)
  show "intensity_kW_per_m (fire_behavior res) =
      byram_intensity_kWm_fn ph (ros_effective_m_per_min (fire_behavior res))
        (fuel_load_kg_m2 (fire_behavior res))"
    by (simp add: fb metrics_of_run Let_def)
  show "time_to_burn_5km2_hours (fire_behavior res) =
      time_to_burn_window_hours_fn ph (ros_effective_m_per_min (fire_behavior res)) 5"
    by (simp add: fb metrics_of_run Let_def)
  show "damage_estimate_rs (fire_behavior res) =
      damage_in_window_rs_fn ph (ros_effective_m_per_min (fire_behavior res)) 50000 5"
    by (simp add: fb metrics_of_run Let_def)
  have "calculate_fire_behavior_st (rate_recording ph) (self, [], [])
         (live_features res) (ros_prediction_m_per_min res) =
       (fst (calculate_fire_behavior ph (self, []) (live_features res)
               (ros_prediction_m_per_min res)), self, progress_lines,
        [ros_prediction_m_per_min res,
         effective_ros_fn ph (ros_prediction_m_per_min res) (slope_pct (live_features res))
           (aspect_deg (live_features res)),
         effective_ros_fn ph (ros_prediction_m_per_min res) (slope_pct (live_features res))
           (aspect_deg (live_features res)),
         effective_ros_fn ph (ros_prediction_m_per_min res) (slope_pct (live_features res))
           (aspect_deg (live_features res))])"
    by (simp add: run_rate_recording)
  then show "calculate_fire_behavior_st (rate_recording ph) (self, [], [])
         (live_features res) (ros_prediction_m_per_min res) =
       (fire_behavior res, self, progress_lines,
        [ros_base_m_per_min (fire_behavior res),
         ros_effective_m_per_min (fire_behavior res),
         ros_effective_m_per_min (fire_behavior res),
         ros_effective_m_per_min (fire_behavior res)])"
    by (simp add: fb metrics_of_run Let_def)
qed

theorem ros_floor_witness:
  "predict_ros (sample_system (- 2)) fallback_features = Inr 0.01
   \<and> effective_ros_fn (sample_physics 1 100) =
       effective_ros (slope_multiplier_fn (sample_physics 1 100))
         (aspect_factor_fn (sample_physics 1 100))
   \<and> (case predict_wildfire_threat (sample_physics 1 100) fallback_get_live_features
              (sample_system (- 2)) 19.05822 72.87781 of
         Inl e \<Rightarrow> False
       | Inr res \<Rightarrow>
           ros_prediction_m_per_min res = 0.01
           \<and> ros_base_m_per_min (fire_behavior res) = 0.01
           \<and> ros_effective_m_per_min (fire_behavior res) = 0.011
           \<and> intensity_kW_per_m (fire_behavior res) = 300 * 0.011 * 0.5
           \<and> time_to_burn_5km2_hours (fire_behavior res) = 5 / 0.011
           \<and> snd (snd (snd (calculate_fire_behavior_st (rate_recording (sample_physics 1 100))
                 (sample_system (- 2), [], []) (live_features res)
                 (ros_prediction_m_per_min res)))) = [0.01, 0.011, 0.011, 0.011])"
proof -
  have eff: "effective_ros_fn (sample_physics 1 100) =
       effective_ros (slope_multiplier_fn (sample_physics 1 100))
         (aspect_factor_fn (sample_physics 1 100))"
    by (simp add: sample_physics_def)
  note run = sample_run
  note rf = ros_floor [where self = "sample_system (- 2)" and f = fallback_features
      and ph = "sample_physics 1 100" and glf = fallback_get_live_features
      and lat = "19.05822" and lon = "72.87781",
      THEN conjunct2, THEN conjunct2, THEN conjunct2, THEN mp, OF eff, THEN spec, THEN mp,
      OF run]
  have base: "predict_ros (sample_system (- 2)) fallback_features = Inr 0.01"
    by (simp add: predict_ros_def and_then_def feature_array_of_def sample_system_def)
  have vals: "effective_ros_fn (sample_physics 1 100) (1 / 100) (slope_pct fallback_features)
        (aspect_deg fallback_features) = 11 / 1000"
    "fuel_load_from_ndvi_fn (sample_physics 1 100) (ndvi fallback_features) = 1 / 2"
    "byram_intensity_kWm_fn (sample_physics 1 100) (11 / 1000) (1 / 2) = 165 / 100"
    "time_to_burn_window_hours_fn (sample_physics 1 100) (11 / 1000) 5 = 5000 / 11"
    by (simp_all add: sample_physics_def effective_ros_def fallback_features_def)
  have run_facts: "(case predict_wildfire_threat (sample_physics 1 100)
              fallback_get_live_features (sample_system (- 2)) 19.05822 72.87781 of
         Inl e \<Rightarrow> False
       | Inr res \<Rightarrow>
           ros_prediction_m_per_min res = 0.01
           \<and> ros_base_m_per_min (fire_behavior res) = 0.01
           \<and> ros_effective_m_per_min (fire_behavior res) = 0.011
           \<and> intensity_kW_per_m (fire_behavior res) = 300 * 0.011 * 0.5
           \<and> time_to_burn_5km2_hours (fire_behavior res) = 5 / 0.011
           \<and> snd (snd (snd (calculate_fire_behavior_st (rate_recording (sample_physics 1 100))
                 (sample_system (- 2), [], []) (live_features res)
                 (ros_prediction_m_per_min res)))) = [0.01, 0.011, 0.011, 0.011])"
    using rf unfolding run
    by (simp add: metrics_of_run Let_def vals)
  from base eff run_facts show ?thesis by (intro conjI)
qed

subsection \<open>The classification path and the routes\<close>

lemma weather_sample:
  "get_weather_data sample_weather =
     Inr \<lparr>tmax_c = 0, rh_pct = 50, ws_mean_mps = 5, precip_mm_24h = 0,
          weather_data.vpd_kpa = 0.31\<rparr>"
  by (simp add: get_weather_data_def sample_weather_def Let_def py_round2_def)

lemma classify_risk_tenth: "classify_risk 0.1 = Some ''Low''"
  by (simp add: classify_risk_def risk_index_def py_int_def py_getitem_def risk_levels_def)

lemma classify_risk_cascade:
  assumes "0 \<le> p" and "p \<le> 1"
  shows "classify_risk p = Some (get_risk_level p)"
  using assms
  by (simp add: classify_risk_def risk_index_cases get_risk_level_def risk_levels_at)

lemma route_bad_request:
  assumes "args ''lat'' = None \<or> args ''lon'' = None
     \<or> to_float (the (args ''lat'')) = None \<or> to_float (the (args ''lon'')) = None"
  shows "snd (predict_route to_float predictor srv args) = 400"
    and "snd (analyze_threat_route to_float predictor srv args) = 400"
  using assms
  by (auto simp: predict_route_def analyze_threat_route_def split: option.splits)

lemma route_statuses:
  "snd (predict_route to_float predictor srv args) \<in> {200, 400, 500}"
  "snd (analyze_threat_route to_float predictor srv args) \<in> {200, 400, 500}"
  by (auto simp: predict_route_def analyze_threat_route_def split: option.splits sum.splits)

lemma analyze_threat_failure:
  assumes "args ''lat'' = Some lat" and "args ''lon'' = Some lon"
    and "to_float lat = Some latf" and "to_float lon = Some lonf"
    and "and_then (load_inference_system srv) (\<lambda>(ph, threat_system).
           predict_wildfire_threat ph (get_live_features srv) threat_system latf lonf) = Inl e"
  shows "snd (analyze_threat_route to_float predictor srv args) = 500"
  using assms
  by (auto simp: analyze_threat_route_def split: option.splits sum.splits)

text \<open>
  C6. The route \<open>/predict\<close> on the query \<open>lat=19.05&lon=72.87\<close>: when the classifier
  raises, and when the weather request raises, the answer is the error dictionary of
  \<open>predict_dict\<close> with status 200.
\<close>

theorem predict_route_failure_status:
  "predict_route sample_to_float (sample_predictor (Inl (Raised ''feature shape mismatch'')))
      (sample_services sample_weather (LightningJson None)) sample_args =
     (PredictBody (PredictError ''Model prediction failed: feature shape mismatch''
        ''2025-01-01T00:00:00''), 200)
   \<and> predict_route sample_to_float (sample_predictor (Inr 0.1))
      (sample_services (WeatherRaised ''timed out'') (LightningJson None)) sample_args =
     (PredictBody (PredictError ''Error: timed out'' ''2025-01-01T00:00:00''), 200)"
proof
  show "predict_route sample_to_float
      (sample_predictor (Inl (Raised ''feature shape mismatch'')))
      (sample_services sample_weather (LightningJson None)) sample_args =
     (PredictBody (PredictError ''Model prediction failed: feature shape mismatch''
        ''2025-01-01T00:00:00''), 200)"
    by (simp add: predict_route_def predict_dict_def weather_sample sample_services_def
        sample_predictor_def sample_to_float_def sample_args_def get_lightning_data_def
        and_then_def)
  show "predict_route sample_to_float (sample_predictor (Inr 0.1))
      (sample_services (WeatherRaised ''timed out'') (LightningJson None)) sample_args =
     (PredictBody (PredictError ''Error: timed out'' ''2025-01-01T00:00:00''), 200)"
    by (simp add: predict_route_def predict_dict_def sample_services_def
        sample_predictor_def sample_to_float_def sample_args_def get_weather_data_def)
qed

text \<open>
  C7, as stated, fails on a failure of the lightning provider: with the lightning
  request raising, \<open>predict_dict\<close> returns a prediction with no error in it, the very
  one it returns when the request succeeds with no strike.
\<close>

theorem lightning_failure_not_propagated:
  "predict_dict (sample_predictor (Inr 0.1))
      (sample_services sample_weather (LightningRaised ''timed out'')) 19.05 72.87 =
     Inr (Prediction
       \<lparr>timestamp = ''2025-01-01T00:00:00'', latitude = 19.05, longitude = 72.87,
        temperature_celsius = 0, relative_humidity_percent = 50, wind_speed_mps = 5,
        precipitation_mm_24h = 0, vapor_pressure_deficit_kpa = 0.31, detected = False,
        strike_count_24h = 0, fire_risk_percentage = 10, risk_level = ''Low'',
        fire_expected = False\<rparr>)
   \<and> predict_dict (sample_predictor (Inr 0.1))
      (sample_services sample_weather (LightningRaised ''timed out'')) 19.05 72.87 =
     predict_dict (sample_predictor (Inr 0.1))
      (sample_services sample_weather (LightningJson (Some []))) 19.05 72.87"
  by (simp add: predict_dict_def weather_sample sample_services_def sample_predictor_def
      get_lightning_data_def and_then_def classify_risk_tenth py_round2_def)

text \<open>
  C7, amended. A failure of the weather provider or of the classifier is returned as an
  error dictionary whose message names the stage: the message of \<open>get_weather_data\<close>
  (\<open>Error: ...\<close> for an exception of the weather request), or \<open>Model prediction
  failed: ...\<close> for an exception of either call of the classifier. A prediction is
  returned only when the weather data and both calls of the classifier succeeded, and
  it is computed from them.
\<close>

theorem predict_dict_failures:
  "(\<forall>msg. get_weather_data (open_meteo srv lat lon) = Inl msg \<longrightarrow>
       predict_dict self srv lat lon = Inr (PredictError msg (now_isoformat srv)))
   \<and> (\<forall>e. open_meteo srv lat lon = WeatherRaised e \<longrightarrow>
       predict_dict self srv lat lon = Inr (PredictError (''Error: '' @ e) (now_isoformat srv)))
   \<and> (\<forall>w e. get_weather_data (open_meteo srv lat lon) = Inr w
         \<and> (predict_proba self
               (feature_row w (fst (get_lightning_data (aeris_lightning srv lat lon)))) = Inl e
            \<or> (\<exists>p. predict_proba self
               (feature_row w (fst (get_lightning_data (aeris_lightning srv lat lon)))) = Inr p
               \<and> predict self
               (feature_row w (fst (get_lightning_data (aeris_lightning srv lat lon)))) = Inl e))
       \<longrightarrow> predict_dict self srv lat lon =
             Inr (PredictError (''Model prediction failed: '' @ str_of_error e)
                    (now_isoformat srv)))
   \<and> (\<forall>r. predict_dict self srv lat lon = Inr (Prediction r) \<longrightarrow>
        (\<exists>w p y. get_weather_data (open_meteo srv lat lon) = Inr w
           \<and> predict_proba self
               (feature_row w (fst (get_lightning_data (aeris_lightning srv lat lon)))) = Inr p
           \<and> predict self
               (feature_row w (fst (get_lightning_data (aeris_lightning srv lat lon)))) = Inr y
           \<and> fire_risk_percentage r = py_round2 (p * 100)
           \<and> fire_expected r = (y \<noteq> 0)))"
  by (auto simp: predict_dict_def and_then_def get_weather_data_def split_def Let_def
      split: sum.splits option.splits prod.splits)

theorem predict_dict_failures_witness:
  "open_meteo (sample_services (WeatherRaised ''timed out'') (LightningJson None)) 19.05 72.87 =
     WeatherRaised ''timed out''
   \<and> predict_dict (sample_predictor (Inr 0.1))
       (sample_services (WeatherRaised ''timed out'') (LightningJson None)) 19.05 72.87 =
     Inr (PredictError ''Error: timed out'' ''2025-01-01T00:00:00'')
   \<and> get_weather_data (open_meteo (sample_services sample_weather (LightningJson None))
        19.05 72.87) =
     Inr \<lparr>tmax_c = 0, rh_pct = 50, ws_mean_mps = 5, precip_mm_24h = 0,
          weather_data.vpd_kpa = 0.31\<rparr>
   \<and> predict_proba (sample_predictor (Inl (Raised ''feature shape mismatch'')))
       (feature_row \<lparr>tmax_c = 0, rh_pct = 50, ws_mean_mps = 5, precip_mm_24h = 0,
          weather_data.vpd_kpa = 0.31\<rparr> 0) = Inl (Raised ''feature shape mismatch'')
   \<and> predict_dict (sample_predictor (Inl (Raised ''feature shape mismatch'')))
       (sample_services sample_weather (LightningJson None)) 19.05 72.87 =
     Inr (PredictError ''Model prediction failed: feature shape mismatch''
            ''2025-01-01T00:00:00'')"
proof -
  let ?srv1 = "sample_services (WeatherRaised ''timed out'') (LightningJson None)"
  let ?srv2 = "sample_services sample_weather (LightningJson None)"
  let ?bad = "sample_predictor (Inl (Raised ''feature shape mismatch''))"
  let ?w = "\<lparr>tmax_c = 0, rh_pct = 50, ws_mean_mps = 5, precip_mm_24h = 0,
          weather_data.vpd_kpa = 0.31\<rparr>"
  have a: "open_meteo ?srv1 19.05 72.87 = WeatherRaised ''timed out''"
    by (simp add: sample_services_def)
  have b: "get_weather_data (open_meteo ?srv2 19.05 72.87) = Inr ?w"
    by (simp add: sample_services_def weather_sample)
  have l: "fst (get_lightning_data (aeris_lightning ?srv2 19.05 72.87)) = 0"
    by (simp add: sample_services_def get_lightning_data_def)
  have c: "predict_proba ?bad (feature_row ?w 0) = Inl (Raised ''feature shape mismatch'')"
    by (simp add: sample_predictor_def)
  have d: "now_isoformat ?srv1 = ''2025-01-01T00:00:00''"
    "now_isoformat ?srv2 = ''2025-01-01T00:00:00''"
    by (simp_all add: sample_services_def)
  from predict_dict_failures [of ?srv1 "19.05" "72.87" "sample_predictor (Inr 0.1)"] a
  have e: "predict_dict (sample_predictor (Inr 0.1)) ?srv1 19.05 72.87 =
      Inr (PredictError ''Error: timed out'' ''2025-01-01T00:00:00'')"
    by (simp add: d)
  from predict_dict_failures [of ?srv2 "19.05" "72.87" ?bad] b c l
  have f: "predict_dict ?bad ?srv2 19.05 72.87 =
      Inr (PredictError ''Model prediction failed: feature shape mismatch''
            ''2025-01-01T00:00:00'')"
    by (simp add: d)
  show ?thesis using a b c e f by simp
qed

text \<open>
  C10. When the lightning request raises, \<open>get_lightning_data\<close> returns \<open>(0, 0)\<close>, the
  value it returns for a response with no strike (and the \<open>get_lightning_data\<close> of
  wildfire\_model.py returns \<open>0\<close>, as for no strike). \<open>predict_dict\<close> then returns what it
  returns when the request succeeds with no strike; with the weather data and the
  classifier succeeding on the feature row with lightning 0, that is the prediction with
  no lightning detected and a strike count of 0.
\<close>

theorem lightning_failure_defaults:
  "get_lightning_data (LightningRaised e) = (0, 0)
   \<and> get_lightning_data (LightningJson (Some [])) = (0, 0)
   \<and> api_get_lightning_data (LightningRaised e) = api_get_lightning_data (LightningJson (Some []))
   \<and> (aeris_lightning srv lat lon = LightningRaised e \<longrightarrow>
        predict_dict self srv lat lon =
          predict_dict self (srv\<lparr>aeris_lightning := (\<lambda>a b. LightningJson (Some []))\<rparr>) lat lon)
   \<and> (aeris_lightning srv lat lon = LightningRaised e
         \<and> get_weather_data (open_meteo srv lat lon) = Inr w
         \<and> predict_proba self (feature_row w 0) = Inr p
         \<and> predict self (feature_row w 0) = Inr y \<and> 0 \<le> p \<and> p \<le> 1
       \<longrightarrow> predict_dict self srv lat lon =
            Inr (Prediction
              \<lparr>timestamp = now_isoformat srv, latitude = lat, longitude = lon,
               temperature_celsius = tmax_c w, relative_humidity_percent = rh_pct w,
               wind_speed_mps = ws_mean_mps w, precipitation_mm_24h = precip_mm_24h w,
               vapor_pressure_deficit_kpa = weather_data.vpd_kpa w, detected = False,
               strike_count_24h = 0, fire_risk_percentage = py_round2 (p * 100),
               risk_level = get_risk_level p, fire_expected = (y \<noteq> 0)\<rparr>))"
proof (intro conjI impI)
  show "get_lightning_data (LightningRaised e) = (0, 0)"
    by (simp add: get_lightning_data_def)
  show "get_lightning_data (LightningJson (Some [])) = (0, 0)"
    by (simp add: get_lightning_data_def)
  show "api_get_lightning_data (LightningRaised e) =
      api_get_lightning_data (LightningJson (Some []))"
    by (simp add: api_get_lightning_data_def)
next
  assume "aeris_lightning srv lat lon = LightningRaised e"
  then show "predict_dict self srv lat lon =
      predict_dict self (srv\<lparr>aeris_lightning := (\<lambda>a b. LightningJson (Some []))\<rparr>) lat lon"
    by (simp add: predict_dict_def get_lightning_data_def Let_def
        cong: sum.case_cong option.case_cong)
next
  assume h: "aeris_lightning srv lat lon = LightningRaised e
         \<and> get_weather_data (open_meteo srv lat lon) = Inr w
         \<and> predict_proba self (feature_row w 0) = Inr p
         \<and> predict self (feature_row w 0) = Inr y \<and> 0 \<le> p \<and> p \<le> 1"
  then have "classify_risk p = Some (get_risk_level p)"
    by (simp add: classify_risk_cascade)
  with h show "predict_dict self srv lat lon =
            Inr (Prediction
              \<lparr>timestamp = now_isoformat srv, latitude = lat, longitude = lon,
               temperature_celsius = tmax_c w, relative_humidity_percent = rh_pct w,
               wind_speed_mps = ws_mean_mps w, precipitation_mm_24h = precip_mm_24h w,
               vapor_pressure_deficit_kpa = weather_data.vpd_kpa w, detected = False,
               strike_count_24h = 0, fire_risk_percentage = py_round2 (p * 100),
               risk_level = get_risk_level p, fire_expected = (y \<noteq> 0)\<rparr>)"
    by (simp add: predict_dict_def get_lightning_data_def and_then_def)
qed

theorem lightning_failure_defaults_witness:
  "aeris_lightning (sample_services sample_weather (LightningRaised ''timed out'')) 19.05 72.87 =
     LightningRaised ''timed out''
   \<and> get_weather_data (open_meteo
        (sample_services sample_weather (LightningRaised ''timed out'')) 19.05 72.87) =
     Inr \<lparr>tmax_c = 0, rh_pct = 50, ws_mean_mps = 5, precip_mm_24h = 0,
          weather_data.vpd_kpa = 0.31\<rparr>
   \<and> predict_proba (sample_predictor (Inr 0.9))
       (feature_row \<lparr>tmax_c = 0, rh_pct = 50, ws_mean_mps = 5, precip_mm_24h = 0,
          weather_data.vpd_kpa = 0.31\<rparr> 0) = Inr 0.9
   \<and> predict_dict (sample_predictor (Inr 0.9))
       (sample_services sample_weather (LightningRaised ''timed out'')) 19.05 72.87 =
     Inr (Prediction
       \<lparr>timestamp = ''2025-01-01T00:00:00'', latitude = 19.05, longitude = 72.87,
        temperature_celsius = 0, relative_humidity_percent = 50, wind_speed_mps = 5,
        precipitation_mm_24h = 0, vapor_pressure_deficit_kpa = 0.31, detected = False,
        strike_count_24h = 0, fire_risk_percentage = 90, risk_level = ''Extreme'',
        fire_expected = False\<rparr>)"
proof -
  let ?srv = "sample_services sample_weather (LightningRaised ''timed out'')"
  let ?w = "\<lparr>tmax_c = 0, rh_pct = 50, ws_mean_mps = 5, precip_mm_24h = 0,
          weather_data.vpd_kpa = 0.31\<rparr>"
  have a: "aeris_lightning ?srv 19.05 72.87 = LightningRaised ''timed out''"
    by (simp add: sample_services_def)
  have b: "get_weather_data (open_meteo ?srv 19.05 72.87) = Inr ?w"
    by (simp add: sample_services_def weather_sample)
  have c: "predict_proba (sample_predictor (Inr 0.9)) (feature_row ?w 0) = Inr 0.9"
    "predict (sample_predictor (Inr 0.9)) (feature_row ?w 0) = Inr 0"
    by (simp_all add: sample_predictor_def)
  have d: "now_isoformat ?srv = ''2025-01-01T00:00:00''"
    by (simp add: sample_services_def)
  have r: "py_round2 90 = 90" "get_risk_level 0.9 = ''Extreme''"
    by (simp_all add: py_round2_def get_risk_level_def)
  from lightning_failure_defaults [where e = "''timed out''" and srv = ?srv
      and lat = "19.05" and lon = "72.87" and self = "sample_predictor (Inr 0.9)"
      and w = ?w and p = "0.9" and y = 0,
      THEN conjunct2, THEN conjunct2, THEN conjunct2, THEN conjunct2] a b c
  have "predict_dict (sample_predictor (Inr 0.9)) ?srv 19.05 72.87 =
     Inr (Prediction
       \<lparr>timestamp = ''2025-01-01T00:00:00'', latitude = 19.05, longitude = 72.87,
        temperature_celsius = 0, relative_humidity_percent = 50, wind_speed_mps = 5,
        precipitation_mm_24h = 0, vapor_pressure_deficit_kpa = 0.31, detected = False,
        strike_count_24h = 0, fire_risk_percentage = 90, risk_level = ''Extreme'',
        fire_expected = False\<rparr>)"
    by (simp add: d r)
  then show ?thesis using a b c by simp
qed

end
